theory Spec2Isabelle
  imports Complex_Main "HOL-Library.AList" "HOL-Library.Char_ord" "HOL-Library.List_Lexorder"
begin

section \<open>Shared script code of Horton: \<^verbatim>\<open>horton/scripts/common.py\<close>\<close>

text \<open>
  The module is Python 2 (\<^verbatim>\<open>xrange\<close>, \<^verbatim>\<open>iteritems\<close>). Exceptions are values of the
  type \<open>exn\<close>; a function that may raise returns \<open>exn + 'a\<close>, and a function that
  also changes the open HDF5 file returns the file next to the outcome, so that the state
  left behind by a failure can be read.
\<close>

datatype exn =
    IOError string
  | KeyError string
  | ValueError string
  | TypeError string
  | AttributeError string
  | RuntimeError string
  | SerializationFailure string
  | KeyboardInterrupt

subsection \<open>Strings\<close>

text \<open>\<^verbatim>\<open>sep.join(xs)\<close>\<close>

fun py_join :: "string \<Rightarrow> string list \<Rightarrow> string" where
  "py_join sep [] = []"
| "py_join sep [x] = x"
| "py_join sep (x # y # ys) = x @ sep @ py_join sep (y # ys)"

text \<open>\<^verbatim>\<open>s.split(c)\<close> for a separator of one character: never the empty list.\<close>

fun py_split :: "char \<Rightarrow> string \<Rightarrow> string list" where
  "py_split c [] = [[]]"
| "py_split c (x # xs) =
     (if x = c then [] # py_split c xs
      else (case py_split c xs of
              [] \<Rightarrow> [[x]]
            | w # ws \<Rightarrow> (x # w) # ws))"

text \<open>\<^verbatim>\<open>s.count(c)\<close> for a pattern of one character.\<close>

definition py_count :: "string \<Rightarrow> char \<Rightarrow> nat" where
  "py_count s c = count_list s c"

subsection \<open>\<^verbatim>\<open>parse_h5\<close>\<close>

text \<open>
  \<^verbatim>\<open>
  def parse_h5(arg_h5, name, path_optional=True):
      if path_optional:
          if arg_h5.count(':') == 1:
              return arg_h5.split(':')
          elif arg_h5.count(':') == 0:
              return arg_h5, '/'
          else:
              raise ValueError('The hdf5 argument "%s" must contain at most one colon.' % name)
      else:
          if arg_h5.count(':') == 1:
              return arg_h5.split(':')
          else:
              raise ValueError('The hdf5 argument "%s" must contain one colon.' % name)
  \<close>
  The result is a Python sequence of two strings (a list from \<^verbatim>\<open>split\<close>, a tuple in the
  default case); both are modelled as a list.
\<close>

definition parse_h5 :: "string \<Rightarrow> string \<Rightarrow> bool \<Rightarrow> exn + string list" where
  "parse_h5 arg_h5 name path_optional =
     (if path_optional then
        (if py_count arg_h5 CHR '':'' = 1 then Inr (py_split CHR '':'' arg_h5)
         else if py_count arg_h5 CHR '':'' = 0 then Inr [arg_h5, ''/'']
         else Inl (ValueError (''The hdf5 argument '' @ [CHR 0x22] @ name @ [CHR 0x22] @ '' must contain at most one colon.'')))
      else
        (if py_count arg_h5 CHR '':'' = 1 then Inr (py_split CHR '':'' arg_h5)
         else Inl (ValueError (''The hdf5 argument '' @ [CHR 0x22] @ name @ [CHR 0x22] @ '' must contain one colon.''))))"

subsection \<open>\<^verbatim>\<open>safe_open_h5\<close>: opening with retries\<close>

text \<open>
  What happens outside the function is a trace of events. \<open>OpenAttempt\<close> is one call of
  \<^verbatim>\<open>h5.File(*args, **kwargs)\<close>, \<open>Sleep d\<close> one completed \<^verbatim>\<open>time.sleep(d)\<close>, \<open>Close\<close> one
  \<^verbatim>\<open>f.close()\<close>, \<open>Log s\<close> one line given to the logger.
\<close>

datatype event = OpenAttempt | Sleep real | Close | Log string

text \<open>
  \<^verbatim>\<open>np.random.uniform(low, high)\<close> is \<open>low + (high - low) * u\<close> for a sample \<open>u\<close> of
  the half-open unit interval, which the random source supplies.
\<close>

definition np_random_uniform :: "real \<Rightarrow> real \<Rightarrow> real \<Rightarrow> real" where
  "np_random_uniform low high u = low + (high - low) * u"

text \<open>\<^verbatim>\<open>time.sleep(d)\<close> of Python 2 raises \<^verbatim>\<open>IOError\<close> for a negative duration.\<close>

definition time_sleep :: "real \<Rightarrow> exn + real" where
  "time_sleep d = (if d < 0 then Inl (IOError ''[Errno 22] Invalid argument'') else Inr d)"

text \<open>
  \<^verbatim>\<open>
  wait = kwargs.pop('wait', 10.0)
  counter = kwargs.pop('count', 10)
  while True:
      try:
          f = h5.File(*args, **kwargs)
          break
      except:
          counter -= 1
          if counter <= 0:
              raise
          time.sleep(np.random.uniform(0, wait))
          continue
  \<close>
  The outcome of the \<open>i\<close>-th call of \<^verbatim>\<open>h5.File\<close> is \<open>opens i\<close> (the file system decides
  it), and \<open>rnd i\<close> is the sample drawn after the \<open>i\<close>-th failure. The \<^verbatim>\<open>except:\<close>
  clause names no exception class. The loop ends because every pass either leaves or
  decrements a counter that is positive afterwards.
\<close>

function open_loop ::
  "(nat \<Rightarrow> exn + 'h) \<Rightarrow> (nat \<Rightarrow> real) \<Rightarrow> real \<Rightarrow> int \<Rightarrow> nat \<Rightarrow> (exn + 'h) \<times> event list" where
  "open_loop opens rnd wait counter i =
     (case opens i of
        Inr f \<Rightarrow> (Inr f, [OpenAttempt])
      | Inl e \<Rightarrow>
          (if counter - 1 \<le> 0 then (Inl e, [OpenAttempt])
           else (case time_sleep (np_random_uniform 0 wait (rnd i)) of
                   Inl e' \<Rightarrow> (Inl e', [OpenAttempt])
                 | Inr d \<Rightarrow>
                     (case open_loop opens rnd wait (counter - 1) (Suc i) of
                        (r, tr) \<Rightarrow> (r, OpenAttempt # Sleep d # tr)))))"
  by pat_completeness auto
termination
  by (relation "measure (\<lambda>(opens, rnd, wait, counter, i). nat counter)") auto

declare open_loop.simps [simp del]

text \<open>The part of \<^verbatim>\<open>safe_open_h5\<close> before the \<^verbatim>\<open>yield\<close>: the acquisition.\<close>

definition safe_open_h5 ::
  "(nat \<Rightarrow> exn + 'h) \<Rightarrow> (nat \<Rightarrow> real) \<Rightarrow> real \<Rightarrow> int \<Rightarrow> (exn + 'h) \<times> event list" where
  "safe_open_h5 opens rnd wait count = open_loop opens rnd wait count 0"

text \<open>
  \<^verbatim>\<open>
      try:
          yield f
      finally:
          f.close()
  \<close>
  under \<^verbatim>\<open>@contextlib.contextmanager\<close>, used as \<^verbatim>\<open>with safe_open_h5(...) as f: body\<close>.
  A failed acquisition raises before the body runs. Otherwise the body runs on the handle;
  whether it completes (also by \<^verbatim>\<open>return\<close>) or raises, the generator is resumed at the
  \<^verbatim>\<open>yield\<close>, the \<^verbatim>\<open>finally\<close> clause closes the file, and the body's outcome is the
  outcome of the statement. The body gives its outcome, the file as it leaves it and the
  lines it logged.
\<close>

definition with_safe_open_h5 ::
  "(nat \<Rightarrow> exn + 'h) \<Rightarrow> (nat \<Rightarrow> real) \<Rightarrow> real \<Rightarrow> int \<Rightarrow>
   ('h \<Rightarrow> (exn + 'a) \<times> 'h \<times> string list) \<Rightarrow> (exn + 'a) \<times> 'h option \<times> event list" where
  "with_safe_open_h5 opens rnd wait count body =
     (case safe_open_h5 opens rnd wait count of
        (Inl e, tr) \<Rightarrow> (Inl e, None, tr)
      | (Inr f, tr) \<Rightarrow>
          (case body f of
             (r, f', out) \<Rightarrow> (r, Some f', tr @ map Log out @ [Close])))"

text \<open>The number of sleeps and the durations slept in a trace.\<close>

fun sleeps :: "event list \<Rightarrow> real list" where
  "sleeps [] = []"
| "sleeps (Sleep d # tr) = d # sleeps tr"
| "sleeps (_ # tr) = sleeps tr"

subsection \<open>Python values and the HDF5 file\<close>

text \<open>
  The values the scripts hand to the writers: scalars, strings, numeric arrays, mappings
  from names to values, and any other Python object (given by its class name).
\<close>

datatype pyval =
    PyInt int
  | PyFloat real
  | PyStr string
  | PyArray "real list"
  | PyDict "(string \<times> pyval) list"
  | PyObject string

text \<open>
  What \<^verbatim>\<open>h5py\<close> can turn into a dataset by \<^verbatim>\<open>grp[name] = value\<close>: the values
  \<^verbatim>\<open>numpy\<close> gives a native type. An integer has one when it fits 64 bits, signed or
  unsigned; a mapping and an arbitrary object have none.
\<close>

fun h5_storable :: "pyval \<Rightarrow> bool" where
  "h5_storable (PyInt i) = (- (2 ^ 63) \<le> i \<and> i < 2 ^ 64)"
| "h5_storable (PyFloat x) = True"
| "h5_storable (PyStr s) = True"
| "h5_storable (PyArray xs) = True"
| "h5_storable (PyDict kvs) = False"
| "h5_storable (PyObject c) = False"

text \<open>
  The values of command line arguments, which are also the values of HDF5 attributes:
  scalars, strings, and any other Python object (given by its class name). An argument
  that was not given is \<^verbatim>\<open>None\<close>, here \<open>None\<close>. An attribute can hold the values that
  \<^verbatim>\<open>numpy\<close> gives a native type, as a dataset can.
\<close>

datatype attrval = AttrBool bool | AttrInt int | AttrFloat real | AttrStr string | AttrObject string

fun attr_storable :: "attrval \<Rightarrow> bool" where
  "attr_storable (AttrInt i) = (- (2 ^ 63) \<le> i \<and> i < 2 ^ 64)"
| "attr_storable (AttrObject c) = False"
| "attr_storable val = True"

text \<open>
  An open file is a store of objects. A Python handle (\<^verbatim>\<open>f\<close>, \<^verbatim>\<open>grp\<close>, \<^verbatim>\<open>grp_debug\<close>)
  is the identifier of an object, so that two handles can name the same group and a group
  that was unlinked through one handle is still written through another, as in HDF5. A
  group holds its links and its attributes; the file object \<^verbatim>\<open>f\<close> is the handle of the
  root group. The operations below are those of
  \<^verbatim>\<open>h5py\<close> that the module calls, with the exceptions \<^verbatim>\<open>h5py\<close> raises.
\<close>

type_synonym oid = nat

datatype h5obj =
    Dataset pyval "(string \<times> attrval) list"
  | Group "(string \<times> oid) list" "(string \<times> attrval) list"

record h5file =
  objs :: "oid \<Rightarrow> h5obj option"
  next_id :: oid

definition h5_root :: oid where
  "h5_root = 0"

text \<open>
  A name given to \<^verbatim>\<open>h5py\<close> is a path: components separated by slashes, empty components
  dropped. A name that begins with a slash is followed from the root group of the file,
  any other name from the group it is given to, so that \<^verbatim>\<open>/\<close> is the root group. The
  empty name is no path: it is in no group, and nothing can be read, made or deleted
  under it.
\<close>

definition h5_start :: "oid \<Rightarrow> string \<Rightarrow> oid" where
  "h5_start g name = (if name \<noteq> [] \<and> hd name = CHR ''/'' then h5_root else g)"

definition h5_path :: "string \<Rightarrow> string list" where
  "h5_path name = filter (\<lambda>w. w \<noteq> []) (py_split CHR ''/'' name)"

fun h5_resolve :: "h5file \<Rightarrow> oid \<Rightarrow> string list \<Rightarrow> oid option" where
  "h5_resolve h g [] = Some g"
| "h5_resolve h g (n # ns) =
     (case objs h g of
        Some (Group ls as) \<Rightarrow>
          (case map_of ls n of
             None \<Rightarrow> None
           | Some c \<Rightarrow> h5_resolve h c ns)
      | _ \<Rightarrow> None)"

text \<open>\<^verbatim>\<open>name in grp\<close>\<close>

definition h5_contains :: "h5file \<Rightarrow> oid \<Rightarrow> string \<Rightarrow> bool" where
  "h5_contains h g name = (name \<noteq> [] \<and> h5_resolve h (h5_start g name) (h5_path name) \<noteq> None)"

text \<open>\<^verbatim>\<open>grp[name]\<close>\<close>

definition h5_getitem :: "h5file \<Rightarrow> oid \<Rightarrow> string \<Rightarrow> exn + oid" where
  "h5_getitem h g name =
     (if name = [] then Inl (KeyError name)
      else
        (case h5_resolve h (h5_start g name) (h5_path name) of
           None \<Rightarrow> Inl (KeyError name)
         | Some c \<Rightarrow> Inr c))"

text \<open>
  \<^verbatim>\<open>grp.keys()\<close>: a list in Python 2, in the order in which HDF5 lists the links of a
  group, which is the order of their names; a dataset has no such method.
\<close>

definition h5_keys :: "h5file \<Rightarrow> oid \<Rightarrow> exn + string list" where
  "h5_keys h g =
     (case objs h g of
        Some (Group ls as) \<Rightarrow> Inr (sort (map fst ls))
      | _ \<Rightarrow> Inl (AttributeError ''keys''))"

text \<open>
  \<^verbatim>\<open>del grp[name]\<close> removes the link \<^verbatim>\<open>name\<close>, resolved from \<^verbatim>\<open>grp\<close>, and raises
  \<^verbatim>\<open>KeyError\<close> when there is no such link. The object itself stays in the store, where
  handles that were taken before still reach it.
\<close>

definition h5_delitem :: "h5file \<Rightarrow> oid \<Rightarrow> string \<Rightarrow> exn option \<times> h5file" where
  "h5_delitem h g name =
     (if h5_path name = [] then (Some (KeyError name), h)
      else
        (case h5_resolve h (h5_start g name) (butlast (h5_path name)) of
           None \<Rightarrow> (Some (KeyError name), h)
         | Some par \<Rightarrow>
             (case objs h par of
                Some (Group ls as) \<Rightarrow>
                  (if map_of ls (last (h5_path name)) = None then (Some (KeyError name), h)
                   else (None, h\<lparr>objs := (objs h)(par \<mapsto>
                           Group (filter (\<lambda>l. fst l \<noteq> last (h5_path name)) ls) as)\<rparr>))
              | _ \<Rightarrow> (Some (KeyError name), h))))"

text \<open>
  Linking a new object under a path: missing groups on the way are created, and a name
  that is taken already is an error (\<^verbatim>\<open>Unable to create link (name already exists)\<close>), as
  is a path with no component.
\<close>

fun h5_link_new :: "h5file \<Rightarrow> oid \<Rightarrow> string list \<Rightarrow> h5obj \<Rightarrow> (exn + oid) \<times> h5file" where
  "h5_link_new h g [] ob = (Inl (ValueError ''Unable to create link (no name)''), h)"
| "h5_link_new h g [n] ob =
     (case objs h g of
        Some (Group ls as) \<Rightarrow>
          (if map_of ls n \<noteq> None
           then (Inl (RuntimeError ''Unable to create link (name already exists)''), h)
           else (Inr (next_id h),
                 h\<lparr>objs := (objs h)(g \<mapsto> Group (ls @ [(n, next_id h)]) as, next_id h \<mapsto> ob),
                   next_id := Suc (next_id h)\<rparr>))
      | _ \<Rightarrow> (Inl (RuntimeError ''Unable to create link (component not found)''), h))"
| "h5_link_new h g (n # m # ns) ob =
     (case objs h g of
        Some (Group ls as) \<Rightarrow>
          (case map_of ls n of
             Some c \<Rightarrow> h5_link_new h c (m # ns) ob
           | None \<Rightarrow>
               h5_link_new
                 (h\<lparr>objs := (objs h)(g \<mapsto> Group (ls @ [(n, next_id h)]) as,
                                       next_id h \<mapsto> Group [] []),
                    next_id := Suc (next_id h)\<rparr>)
                 (next_id h) (m # ns) ob)
      | _ \<Rightarrow> (Inl (RuntimeError ''Unable to create link (component not found)''), h))"

text \<open>\<^verbatim>\<open>grp.create_group(name)\<close>\<close>

definition h5_create_group :: "h5file \<Rightarrow> oid \<Rightarrow> string \<Rightarrow> (exn + oid) \<times> h5file" where
  "h5_create_group h g name = h5_link_new h (h5_start g name) (h5_path name) (Group [] [])"

text \<open>
  \<^verbatim>\<open>grp.require_group(name)\<close>, which is
  \<^verbatim>\<open>
  if not name in self:
      return self.create_group(name)
  grp = self[name]
  if not isinstance(grp, Group):
      raise TypeError(...)
  return grp
  \<close>
\<close>

definition h5_require_group :: "h5file \<Rightarrow> oid \<Rightarrow> string \<Rightarrow> (exn + oid) \<times> h5file" where
  "h5_require_group h g name =
     (if \<not> h5_contains h g name then h5_create_group h g name
      else
        (case h5_getitem h g name of
           Inl e \<Rightarrow> (Inl e, h)
         | Inr c \<Rightarrow>
             (case objs h c of
                Some (Group ls as) \<Rightarrow> (Inr c, h)
              | _ \<Rightarrow> (Inl (TypeError ''Incompatible object already exists''), h))))"

text \<open>\<^verbatim>\<open>grp[name] = value\<close> makes a dataset of the value and links it.\<close>

definition h5_setitem :: "h5file \<Rightarrow> oid \<Rightarrow> string \<Rightarrow> pyval \<Rightarrow> exn option \<times> h5file" where
  "h5_setitem h g name v =
     (if h5_storable v then
        (case h5_link_new h (h5_start g name) (h5_path name) (Dataset v []) of
           (Inl e, h') \<Rightarrow> (Some e, h')
         | (Inr c, h') \<Rightarrow> (None, h'))
      else (Some (TypeError ''Object dtype has no native HDF5 equivalent''), h))"

text \<open>
  \<^verbatim>\<open>grp.attrs[key] = val\<close>, which raises \<^verbatim>\<open>TypeError\<close> for a value with no native type
  and changes nothing then, and reading \<^verbatim>\<open>grp.attrs\<close>.
\<close>

definition h5_attrs_set :: "h5file \<Rightarrow> oid \<Rightarrow> string \<Rightarrow> attrval \<Rightarrow> exn option \<times> h5file" where
  "h5_attrs_set h g key val =
     (if \<not> attr_storable val
      then (Some (TypeError ''Object dtype has no native HDF5 equivalent''), h)
      else
        (case objs h g of
           Some (Group ls as) \<Rightarrow>
             (None, h\<lparr>objs := (objs h)(g \<mapsto> Group ls (AList.update key val as))\<rparr>)
         | Some (Dataset d as) \<Rightarrow>
             (None, h\<lparr>objs := (objs h)(g \<mapsto> Dataset d (AList.update key val as))\<rparr>)
         | None \<Rightarrow> (None, h)))"

definition h5_attrs :: "h5file \<Rightarrow> oid \<Rightarrow> string \<Rightarrow> attrval option" where
  "h5_attrs h g =
     (case objs h g of
        Some (Group ls as) \<Rightarrow> map_of as
      | Some (Dataset d as) \<Rightarrow> map_of as
      | None \<Rightarrow> Map.empty)"








subsection \<open>The process environment\<close>

text \<open>
  What the functions read from the process: \<^verbatim>\<open>sys.argv\<close>, \<^verbatim>\<open>os.getcwd()\<close>, the text of
  \<^verbatim>\<open>datetime.datetime.now().isoformat()\<close> at the time of the call, and the two levels
  of the logger.
\<close>

record env =
  argv :: "string list"
  cwd :: string
  now_isoformat :: string
  do_warning :: bool
  do_medium :: bool

subsection \<open>\<^verbatim>\<open>check_output\<close>\<close>

text \<open>
  The test of the source is \<^verbatim>\<open>len(f[grp_name] > 0)\<close>: the comparison is made first, and
  \<^verbatim>\<open>len\<close> is applied to its result. An \<^verbatim>\<open>h5py\<close> object defines no ordering, so Python 2
  falls back to its default ordering, in which a number is smaller than any object that is
  not a number: the comparison is \<^verbatim>\<open>True\<close>. A \<^verbatim>\<open>bool\<close> has no length.
\<close>

definition py_gt_object_int :: "oid \<Rightarrow> int \<Rightarrow> bool" where
  "py_gt_object_int ob n = True"

definition py_len_bool :: "bool \<Rightarrow> exn + nat" where
  "py_len_bool b = Inl (TypeError ''object of type bool has no len()'')"

text \<open>
  \<^verbatim>\<open>
  def check_output(fn_h5, grp_name, overwrite):
      if os.path.isfile(fn_h5):
          with safe_open_h5(fn_h5, 'r') as f:
              if grp_name in f and len(f[grp_name] > 0):
                  if overwrite:
                      if log.do_warning:
                          log.warn('Overwriting the contents of "%s" in the file "%s".' % (grp_name, fn_h5))
                      return False
                  else:
                      if log.do_warning:
                          log.warn('Skipping because the group "%s" is already present in the file "%s" and it is not empty.' % (grp_name, fn_h5))
                      return True
      return False
  \<close>
  The body of the \<^verbatim>\<open>with\<close> statement gives \<open>Some b\<close> when it returns \<open>b\<close> and \<open>None\<close>
  when it runs to its end. \<open>isfile\<close> is the answer of \<^verbatim>\<open>os.path.isfile(fn_h5)\<close>.
\<close>

definition check_output_body ::
  "env \<Rightarrow> string \<Rightarrow> string \<Rightarrow> bool \<Rightarrow> h5file \<Rightarrow> (exn + bool option) \<times> h5file \<times> string list" where
  "check_output_body ev fn_h5 grp_name overwrite f =
     (if h5_contains f h5_root grp_name then
        (case h5_getitem f h5_root grp_name of
           Inl e \<Rightarrow> (Inl e, f, [])
         | Inr ob \<Rightarrow>
             (case py_len_bool (py_gt_object_int ob 0) of
                Inl e \<Rightarrow> (Inl e, f, [])
              | Inr n \<Rightarrow>
                  (if n \<noteq> 0 then
                     (if overwrite then
                        (Inr (Some False), f,
                         if do_warning ev
                         then [''Overwriting the contents of '' @ [CHR 0x22] @ grp_name @ [CHR 0x22]
                               @ '' in the file '' @ [CHR 0x22] @ fn_h5 @ [CHR 0x22] @ ''.'']
                         else [])
                      else
                        (Inr (Some True), f,
                         if do_warning ev
                         then [''Skipping because the group '' @ [CHR 0x22] @ grp_name @ [CHR 0x22]
                               @ '' is already present in the file '' @ [CHR 0x22] @ fn_h5 @ [CHR 0x22]
                               @ '' and it is not empty.'']
                         else []))
                   else (Inr None, f, []))))
      else (Inr None, f, []))"

definition check_output ::
  "env \<Rightarrow> bool \<Rightarrow> (nat \<Rightarrow> exn + h5file) \<Rightarrow> (nat \<Rightarrow> real) \<Rightarrow> string \<Rightarrow> string \<Rightarrow> bool \<Rightarrow>
   (exn + bool) \<times> event list" where
  "check_output ev isfile opens rnd fn_h5 grp_name overwrite =
     (if isfile then
        (case with_safe_open_h5 opens rnd 10 10 (check_output_body ev fn_h5 grp_name overwrite) of
           (Inl e, f', tr) \<Rightarrow> (Inl e, tr)
         | (Inr (Some b), f', tr) \<Rightarrow> (Inr b, tr)
         | (Inr None, f', tr) \<Rightarrow> (Inr False, tr))
      else (Inr False, []))"

subsection \<open>\<^verbatim>\<open>store_args\<close>\<close>

text \<open>
  \<^verbatim>\<open>
  def store_args(args, grp):
      grp.attrs['cmdline'] =  ' '.join(sys.argv)
      grp.attrs['pwd'] = os.getcwd()
      grp.attrs['datetime'] = datetime.datetime.now().isoformat()
      for key, val in vars(args).iteritems():
          if val is not None:
              grp.attrs['arg_%s' % key] = val
  \<close>
  \<^verbatim>\<open>vars(args)\<close> is a dictionary: the list of its items, in the order of iteration.
\<close>

fun store_args_loop ::
  "(string \<times> attrval option) list \<Rightarrow> h5file \<Rightarrow> oid \<Rightarrow> exn option \<times> h5file" where
  "store_args_loop [] h grp = (None, h)"
| "store_args_loop ((key, val) # rest) h grp =
     (case val of
        None \<Rightarrow> store_args_loop rest h grp
      | Some v \<Rightarrow>
          (case h5_attrs_set h grp (''arg_'' @ key) v of
             (Some e, h') \<Rightarrow> (Some e, h')
           | (None, h') \<Rightarrow> store_args_loop rest h' grp))"

definition store_args ::
  "env \<Rightarrow> (string \<times> attrval option) list \<Rightarrow> h5file \<Rightarrow> oid \<Rightarrow> exn option \<times> h5file" where
  "store_args ev args h grp =
     (case h5_attrs_set h grp ''cmdline'' (AttrStr (py_join '' '' (argv ev))) of
        (Some e, h1) \<Rightarrow> (Some e, h1)
      | (None, h1) \<Rightarrow>
          (case h5_attrs_set h1 grp ''pwd'' (AttrStr (cwd ev)) of
             (Some e, h2) \<Rightarrow> (Some e, h2)
           | (None, h2) \<Rightarrow>
               (case h5_attrs_set h2 grp ''datetime'' (AttrStr (now_isoformat ev)) of
                  (Some e, h3) \<Rightarrow> (Some e, h3)
                | (None, h3) \<Rightarrow> store_args_loop args h3 grp)))"

subsection \<open>\<^verbatim>\<open>dump_hdf5_low\<close>\<close>

text \<open>
  Modelled from the spec: \<^verbatim>\<open>dump_hdf5_low\<close> is imported from the package and its source
  is not part of the module. The specification says of it: a value-dumping capability able
  to recursively materialize a scalar, array or nested-mapping value under a named child of
  a group (recursive descent, one child per mapping key), which rejects a value of an
  unsupported type with a serialization failure. The writers below take the function as
  a parameter; this definition is the instance used where a concrete one is needed.
\<close>

function (sequential) dump_hdf5_low :: "h5file \<Rightarrow> oid \<Rightarrow> string \<Rightarrow> pyval \<Rightarrow> exn option \<times> h5file"
  and dump_mapping :: "h5file \<Rightarrow> oid \<Rightarrow> (string \<times> pyval) list \<Rightarrow> exn option \<times> h5file" where
  "dump_hdf5_low h grp name (PyDict kvs) =
     (case h5_require_group h grp name of
        (Inl e, h') \<Rightarrow> (Some e, h')
      | (Inr sub, h') \<Rightarrow> dump_mapping h' sub kvs)"
| "dump_hdf5_low h grp name (PyObject c) = (Some (SerializationFailure c), h)"
| "dump_hdf5_low h grp name v = h5_setitem h grp name v"
| "dump_mapping h grp [] = (None, h)"
| "dump_mapping h grp ((key, v) # kvs) =
     (case dump_hdf5_low h grp key v of
        (Some e, h') \<Rightarrow> (Some e, h')
      | (None, h') \<Rightarrow> dump_mapping h' grp kvs)"
  by pat_completeness auto
termination
  by (relation "measure (\<lambda>x. case x of
         Inl (h, grp, name, v) \<Rightarrow> size v
       | Inr (h, grp, kvs) \<Rightarrow> size_list (size_prod (\<lambda>_. 0) size) kvs)") auto

subsection \<open>The writers\<close>

text \<open>\<^verbatim>\<open>for key in grp.keys(): del f[key]\<close>: every deletion is made on the file object.\<close>

fun del_keys :: "h5file \<Rightarrow> oid \<Rightarrow> string list \<Rightarrow> exn option \<times> h5file" where
  "del_keys h f [] = (None, h)"
| "del_keys h f (key # keys) =
     (case h5_delitem h f key of
        (Some e, h') \<Rightarrow> (Some e, h')
      | (None, h') \<Rightarrow> del_keys h' f keys)"

text \<open>
  The first step of \<^verbatim>\<open>write_script_output\<close>:
  \<^verbatim>\<open>
  if grp_name in f:
      grp = f[grp_name]
      for key in grp.keys():
          del f[key]
  else:
      grp = f.require_group(grp_name)
  \<close>
\<close>

definition script_group :: "h5file \<Rightarrow> string \<Rightarrow> (exn + oid) \<times> h5file" where
  "script_group f grp_name =
     (if h5_contains f h5_root grp_name then
        (case h5_getitem f h5_root grp_name of
           Inl e \<Rightarrow> (Inl e, f)
         | Inr grp \<Rightarrow>
             (case h5_keys f grp of
                Inl e \<Rightarrow> (Inl e, f)
              | Inr keys \<Rightarrow>
                  (case del_keys f h5_root keys of
                     (Some e, f') \<Rightarrow> (Inl e, f')
                   | (None, f') \<Rightarrow> (Inr grp, f'))))
      else h5_require_group f h5_root grp_name)"

text \<open>
  The first step of \<^verbatim>\<open>write_part_output\<close>, where the group is looked up under the
  literal name \<^verbatim>\<open>'grp_name'\<close>:
  \<^verbatim>\<open>
  if grp_name in f:
      grp = f['grp_name']
      for key in grp.keys():
          del f[key]
  else:
      grp = f.create_group(grp_name)
  \<close>
\<close>

definition part_group :: "h5file \<Rightarrow> string \<Rightarrow> (exn + oid) \<times> h5file" where
  "part_group f grp_name =
     (if h5_contains f h5_root grp_name then
        (case h5_getitem f h5_root ''grp_name'' of
           Inl e \<Rightarrow> (Inl e, f)
         | Inr grp \<Rightarrow>
             (case h5_keys f grp of
                Inl e \<Rightarrow> (Inl e, f)
              | Inr keys \<Rightarrow>
                  (case del_keys f h5_root keys of
                     (Some e, f') \<Rightarrow> (Inl e, f')
                   | (None, f') \<Rightarrow> (Inr grp, f'))))
      else h5_create_group f h5_root grp_name)"

text \<open>
  \<^verbatim>\<open>for key, value in results.iteritems(): dump_hdf5_low(grp, key, value)\<close>, with the
  dictionary as the list of its items in the order of iteration and the imported
  \<^verbatim>\<open>dump_hdf5_low\<close> as the parameter \<open>dump\<close>.
\<close>

fun dump_results ::
  "(h5file \<Rightarrow> oid \<Rightarrow> string \<Rightarrow> pyval \<Rightarrow> exn option \<times> h5file) \<Rightarrow>
   h5file \<Rightarrow> oid \<Rightarrow> (string \<times> pyval) list \<Rightarrow> exn option \<times> h5file" where
  "dump_results dump h grp [] = (None, h)"
| "dump_results dump h grp ((key, v) # rest) =
     (case dump h grp key v of
        (Some e, h') \<Rightarrow> (Some e, h')
      | (None, h') \<Rightarrow> dump_results dump h' grp rest)"

text \<open>
  \<^verbatim>\<open>
  def write_script_output(fn_h5, grp_name, results, args):
      with safe_open_h5(fn_h5) as f:
          # Store results
          if grp_name in f: ... else: ...
          for key, value in results.iteritems():
              dump_hdf5_low(grp, key, value)
          # Store command-line arguments arguments
          store_args(args, grp)
          if log.do_medium:
              log('Results written to %s:%s' % (fn_h5, grp_name))
  \<close>
\<close>

definition write_script_output_body ::
  "(h5file \<Rightarrow> oid \<Rightarrow> string \<Rightarrow> pyval \<Rightarrow> exn option \<times> h5file) \<Rightarrow> env \<Rightarrow> string \<Rightarrow> string \<Rightarrow>
   (string \<times> pyval) list \<Rightarrow> (string \<times> attrval option) list \<Rightarrow> h5file \<Rightarrow>
   (exn + unit) \<times> h5file \<times> string list" where
  "write_script_output_body dump ev fn_h5 grp_name results args f =
     (case script_group f grp_name of
        (Inl e, f1) \<Rightarrow> (Inl e, f1, [])
      | (Inr grp, f1) \<Rightarrow>
          (case dump_results dump f1 grp results of
             (Some e, f2) \<Rightarrow> (Inl e, f2, [])
           | (None, f2) \<Rightarrow>
               (case store_args ev args f2 grp of
                  (Some e, f3) \<Rightarrow> (Inl e, f3, [])
                | (None, f3) \<Rightarrow>
                    (Inr (), f3,
                     if do_medium ev then [''Results written to '' @ fn_h5 @ '':'' @ grp_name]
                     else []))))"

definition write_script_output ::
  "(h5file \<Rightarrow> oid \<Rightarrow> string \<Rightarrow> pyval \<Rightarrow> exn option \<times> h5file) \<Rightarrow> env \<Rightarrow>
   (nat \<Rightarrow> exn + h5file) \<Rightarrow> (nat \<Rightarrow> real) \<Rightarrow> string \<Rightarrow> string \<Rightarrow>
   (string \<times> pyval) list \<Rightarrow> (string \<times> attrval option) list \<Rightarrow>
   (exn + unit) \<times> h5file option \<times> event list" where
  "write_script_output dump ev opens rnd fn_h5 grp_name results args =
     with_safe_open_h5 opens rnd 10 10 (write_script_output_body dump ev fn_h5 grp_name results args)"

text \<open>
  The partitioning object of \<^verbatim>\<open>write_part_output\<close>: \<^verbatim>\<open>part[name]\<close> is \<open>part_item\<close>, and
  \<^verbatim>\<open>part.cache\<close> is the list of its keys with the values \<^verbatim>\<open>load\<close> gives. A key is a tuple
  of strings and integers.
\<close>

datatype keypart = KStr string | KInt int

record part =
  part_item :: "string \<Rightarrow> exn + pyval"
  cache :: "(keypart list \<times> pyval) list"

text \<open>\<^verbatim>\<open>str(x)\<close> for a component of a key.\<close>

function str_of_nat :: "nat \<Rightarrow> string" where
  "str_of_nat n =
     (if n < 10 then [''0123456789'' ! n]
      else str_of_nat (n div 10) @ [''0123456789'' ! (n mod 10)])"
  by pat_completeness auto
termination
  by (relation "measure id") auto

declare str_of_nat.simps [simp del]

fun py_str :: "keypart \<Rightarrow> string" where
  "py_str (KStr s) = s"
| "py_str (KInt i) = (if i < 0 then CHR ''-'' # str_of_nat (nat (- i)) else str_of_nat (nat i))"

text \<open>\<^verbatim>\<open>debug_name = '_'.join(str(x) for x in debug_key)\<close>\<close>

definition debug_name :: "keypart list \<Rightarrow> string" where
  "debug_name debug_key = py_join ''_'' (map py_str debug_key)"

text \<open>\<^verbatim>\<open>for name in names: dump_hdf5_low(grp, name, part[name])\<close>\<close>

fun dump_names ::
  "(h5file \<Rightarrow> oid \<Rightarrow> string \<Rightarrow> pyval \<Rightarrow> exn option \<times> h5file) \<Rightarrow>
   part \<Rightarrow> h5file \<Rightarrow> oid \<Rightarrow> string list \<Rightarrow> exn option \<times> h5file" where
  "dump_names dump p h grp [] = (None, h)"
| "dump_names dump p h grp (name # rest) =
     (case part_item p name of
        Inl e \<Rightarrow> (Some e, h)
      | Inr v \<Rightarrow>
          (case dump h grp name v of
             (Some e, h') \<Rightarrow> (Some e, h')
           | (None, h') \<Rightarrow> dump_names dump p h' grp rest))"

text \<open>
  \<^verbatim>\<open>
  for debug_key in part.cache.iterkeys():
      debug_name = '_'.join(str(x) for x in debug_key)
      if debug_name not in names:
          grp_debug[debug_name] = part.cache.load(*debug_key)
  \<close>
\<close>

fun debug_loop ::
  "(keypart list \<times> pyval) list \<Rightarrow> string list \<Rightarrow> h5file \<Rightarrow> oid \<Rightarrow> keypart list list \<Rightarrow>
   exn option \<times> h5file" where
  "debug_loop c names h grp_debug [] = (None, h)"
| "debug_loop c names h grp_debug (debug_key # rest) =
     (if debug_name debug_key \<notin> set names then
        (case map_of c debug_key of
           None \<Rightarrow> (Some (KeyError (debug_name debug_key)), h)
         | Some v \<Rightarrow>
             (case h5_setitem h grp_debug (debug_name debug_key) v of
                (Some e, h') \<Rightarrow> (Some e, h')
              | (None, h') \<Rightarrow> debug_loop c names h' grp_debug rest))
      else debug_loop c names h grp_debug rest)"

text \<open>
  \<^verbatim>\<open>
  if 'debug' in grp:
      del grp['debug']
  grp_debug = grp.create_group('debug')
  for debug_key in part.cache.iterkeys(): ...
  \<close>
\<close>

definition write_debug :: "part \<Rightarrow> string list \<Rightarrow> h5file \<Rightarrow> oid \<Rightarrow> exn option \<times> h5file" where
  "write_debug p names h grp =
     (case (if h5_contains h grp ''debug'' then h5_delitem h grp ''debug'' else (None, h)) of
        (Some e, h1) \<Rightarrow> (Some e, h1)
      | (None, h1) \<Rightarrow>
          (case h5_create_group h1 grp ''debug'' of
             (Inl e, h2) \<Rightarrow> (Some e, h2)
           | (Inr grp_debug, h2) \<Rightarrow> debug_loop (cache p) names h2 grp_debug (map fst (cache p))))"

text \<open>
  \<^verbatim>\<open>args.debug\<close>: the attribute of the argument record, \<^verbatim>\<open>AttributeError\<close> when there is
  none, and its truth value as the condition of an \<^verbatim>\<open>if\<close>.
\<close>

fun py_truth :: "attrval option \<Rightarrow> bool" where
  "py_truth None = False"
| "py_truth (Some (AttrBool b)) = b"
| "py_truth (Some (AttrInt i)) = (i \<noteq> 0)"
| "py_truth (Some (AttrFloat x)) = (x \<noteq> 0)"
| "py_truth (Some (AttrStr s)) = (s \<noteq> [])"
| "py_truth (Some (AttrObject c)) = True"

definition args_debug :: "(string \<times> attrval option) list \<Rightarrow> exn + bool" where
  "args_debug args =
     (case map_of args ''debug'' of
        None \<Rightarrow> Inl (AttributeError ''debug'')
      | Some val \<Rightarrow> Inr (py_truth val))"

text \<open>
  \<^verbatim>\<open>
  def write_part_output(fn_h5, grp_name, part, names, args):
      with safe_open_h5(fn_h5) as f:
          if grp_name in f: ... else: ...
          for name in names:
              dump_hdf5_low(grp, name, part[name])
          store_args(args, grp)
          if args.debug:
              ...
          if log.do_medium:
              log('Results written to %s:%s' % (fn_h5, grp_name))
  \<close>
  \<open>part_results\<close> is the body up to \<^verbatim>\<open>store_args(args, grp)\<close>: it gives the handle
  \<^verbatim>\<open>grp\<close> and the file as it is when \<^verbatim>\<open>args.debug\<close> is read.
\<close>

definition part_results ::
  "(h5file \<Rightarrow> oid \<Rightarrow> string \<Rightarrow> pyval \<Rightarrow> exn option \<times> h5file) \<Rightarrow> env \<Rightarrow> string \<Rightarrow>
   part \<Rightarrow> string list \<Rightarrow> (string \<times> attrval option) list \<Rightarrow> h5file \<Rightarrow> (exn + oid) \<times> h5file" where
  "part_results dump ev grp_name p names args f =
     (case part_group f grp_name of
        (Inl e, f1) \<Rightarrow> (Inl e, f1)
      | (Inr grp, f1) \<Rightarrow>
          (case dump_names dump p f1 grp names of
             (Some e, f2) \<Rightarrow> (Inl e, f2)
           | (None, f2) \<Rightarrow>
               (case store_args ev args f2 grp of
                  (Some e, f3) \<Rightarrow> (Inl e, f3)
                | (None, f3) \<Rightarrow> (Inr grp, f3))))"

definition write_part_output_body ::
  "(h5file \<Rightarrow> oid \<Rightarrow> string \<Rightarrow> pyval \<Rightarrow> exn option \<times> h5file) \<Rightarrow> env \<Rightarrow> string \<Rightarrow> string \<Rightarrow>
   part \<Rightarrow> string list \<Rightarrow> (string \<times> attrval option) list \<Rightarrow> h5file \<Rightarrow>
   (exn + unit) \<times> h5file \<times> string list" where
  "write_part_output_body dump ev fn_h5 grp_name p names args f =
     (case part_results dump ev grp_name p names args f of
        (Inl e, f3) \<Rightarrow> (Inl e, f3, [])
      | (Inr grp, f3) \<Rightarrow>
          (case args_debug args of
             Inl e \<Rightarrow> (Inl e, f3, [])
           | Inr dbg \<Rightarrow>
               (case (if dbg then write_debug p names f3 grp else (None, f3)) of
                  (Some e, f4) \<Rightarrow> (Inl e, f4, [])
                | (None, f4) \<Rightarrow>
                    (Inr (), f4,
                     if do_medium ev then [''Results written to '' @ fn_h5 @ '':'' @ grp_name]
                     else []))))"

definition write_part_output ::
  "(h5file \<Rightarrow> oid \<Rightarrow> string \<Rightarrow> pyval \<Rightarrow> exn option \<times> h5file) \<Rightarrow> env \<Rightarrow>
   (nat \<Rightarrow> exn + h5file) \<Rightarrow> (nat \<Rightarrow> real) \<Rightarrow> string \<Rightarrow> string \<Rightarrow>
   part \<Rightarrow> string list \<Rightarrow> (string \<times> attrval option) list \<Rightarrow>
   (exn + unit) \<times> h5file option \<times> event list" where
  "write_part_output dump ev opens rnd fn_h5 grp_name p names args =
     with_safe_open_h5 opens rnd 10 10 (write_part_output_body dump ev fn_h5 grp_name p names args)"

subsection \<open>Concrete inputs\<close>

text \<open>
  An environment, and files as \<^verbatim>\<open>h5.File\<close> would open them: an empty file; a file whose
  group \<^verbatim>\<open>res\<close> holds one dataset \<^verbatim>\<open>a\<close>; the same with a second dataset \<^verbatim>\<open>a\<close> in the
  root group; a file with two datasets \<^verbatim>\<open>a\<close> and \<^verbatim>\<open>b\<close> in the root group.
\<close>

definition ev_example :: env where
  "ev_example =
     \<lparr>argv = [''horton-wpart.py'', ''out.h5''], cwd = ''/home/user'',
      now_isoformat = ''2013-05-01T12:00:00'', do_warning = True, do_medium = False\<rparr>"

definition file_empty :: h5file where
  "file_empty = \<lparr>objs = [0 \<mapsto> Group [] []], next_id = 1\<rparr>"

definition file_res :: h5file where
  "file_res =
     \<lparr>objs = [0 \<mapsto> Group [(''res'', 1)] [], 1 \<mapsto> Group [(''a'', 2)] [],
              2 \<mapsto> Dataset (PyInt 1) []],
      next_id = 3\<rparr>"

definition file_res_and_a :: h5file where
  "file_res_and_a =
     \<lparr>objs = [0 \<mapsto> Group [(''res'', 1), (''a'', 2)] [], 1 \<mapsto> Group [(''a'', 3)] [],
              2 \<mapsto> Dataset (PyInt 7) [], 3 \<mapsto> Dataset (PyInt 1) []],
      next_id = 4\<rparr>"

definition file_a_b :: h5file where
  "file_a_b =
     \<lparr>objs = [0 \<mapsto> Group [(''a'', 1), (''b'', 2)] [],
              1 \<mapsto> Dataset (PyInt 7) [], 2 \<mapsto> Dataset (PyInt 8) []],
      next_id = 3\<rparr>"

text \<open>The names of the children of the group at a path of the file, as \<^verbatim>\<open>f[name].keys()\<close>.\<close>

definition keys_at :: "h5file \<Rightarrow> string \<Rightarrow> exn + string list" where
  "keys_at f name =
     (case h5_getitem f h5_root name of
        Inl e \<Rightarrow> Inl e
      | Inr grp \<Rightarrow> h5_keys f grp)"

text \<open>
  A partitioning object with one result and a cache in which two different keys,
  \<^verbatim>\<open>('a', 'b')\<close> and \<^verbatim>\<open>('a_b',)\<close>, are joined to the same name.
\<close>

definition part_example :: part where
  "part_example =
     \<lparr>part_item = (\<lambda>name. if name = ''charges'' then Inr (PyArray [1, 2]) else Inl (KeyError name)),
      cache = [([KStr ''a'', KStr ''b''], PyInt 1), ([KStr ''a_b''], PyInt 2)]\<rparr>"





text \<open>Two writes in a row: the second opens the file as the first one closed it.\<close>

definition write_script_twice ::
  "h5file \<Rightarrow> string \<Rightarrow> (string \<times> pyval) list \<Rightarrow> (string \<times> pyval) list \<Rightarrow>
   (exn + unit) \<times> (exn + unit) \<times> h5file option" where
  "write_script_twice f grp_name results1 results2 =
     (case write_script_output dump_hdf5_low ev_example (\<lambda>i. Inr f) (\<lambda>i. 0) ''out.h5'' grp_name results1 [] of
        (r1, None, tr1) \<Rightarrow> (r1, r1, None)
      | (r1, Some f1, tr1) \<Rightarrow>
          (case write_script_output dump_hdf5_low ev_example (\<lambda>i. Inr f1) (\<lambda>i. 0) ''out.h5'' grp_name results2 [] of
             (r2, f2, tr2) \<Rightarrow> (r1, r2, f2)))"

section \<open>Properties\<close>

subsection \<open>Locations\<close>

lemma py_split_no_sep: "c \<notin> set s \<Longrightarrow> py_split c s = [s]"
  by (induction s) auto

lemma py_split_count_one:
  "count_list s c = 1 \<Longrightarrow>
     py_split c s = [takeWhile (\<lambda>x. x \<noteq> c) s, tl (dropWhile (\<lambda>x. x \<noteq> c) s)]"
proof (induction s)
  case Nil
  then show ?case by simp
next
  case (Cons x xs)
  show ?case
  proof (cases "x = c")
    case True
    with Cons.prems have "count_list xs c = 0" by simp
    then have "c \<notin> set xs" by (simp add: count_list_0_iff)
    with True show ?thesis by (simp add: py_split_no_sep)
  next
    case False
    with Cons show ?thesis by simp
  qed
qed

lemma count_one_parts:
  "count_list s c = 1 \<Longrightarrow>
     s = takeWhile (\<lambda>x. x \<noteq> c) s @ c # tl (dropWhile (\<lambda>x. x \<noteq> c) s)
     \<and> c \<notin> set (takeWhile (\<lambda>x. x \<noteq> c) s)
     \<and> c \<notin> set (tl (dropWhile (\<lambda>x. x \<noteq> c) s))"
proof (induction s)
  case Nil
  then show ?case by simp
next
  case (Cons x xs)
  show ?case
  proof (cases "x = c")
    case True
    with Cons.prems have "count_list xs c = 0" by simp
    then have "c \<notin> set xs" by (simp add: count_list_0_iff)
    with True show ?thesis by simp
  next
    case False
    with Cons show ?thesis by simp
  qed
qed

text \<open>
  Claim C8. With exactly one colon \<^verbatim>\<open>parse_h5\<close> returns the two parts around it, whether
  the path is optional or not. With the path optional, a string with no colon is paired
  with the root path \<^verbatim>\<open>/\<close> and a string with more than one colon raises \<^verbatim>\<open>ValueError\<close>.
  With the path required, every string that does not hold exactly one colon raises
  \<^verbatim>\<open>ValueError\<close>.
\<close>

theorem parse_h5_cases:
  "(py_count s CHR '':'' = 1 \<longrightarrow>
      parse_h5 s name opt =
        Inr [takeWhile (\<lambda>x. x \<noteq> CHR '':'') s, tl (dropWhile (\<lambda>x. x \<noteq> CHR '':'') s)]
      \<and> s = takeWhile (\<lambda>x. x \<noteq> CHR '':'') s @ CHR '':'' # tl (dropWhile (\<lambda>x. x \<noteq> CHR '':'') s)
      \<and> CHR '':'' \<notin> set (takeWhile (\<lambda>x. x \<noteq> CHR '':'') s)
      \<and> CHR '':'' \<notin> set (tl (dropWhile (\<lambda>x. x \<noteq> CHR '':'') s)))
   \<and> (py_count s CHR '':'' = 0 \<longrightarrow> parse_h5 s name True = Inr [s, ''/''])
   \<and> (1 < py_count s CHR '':'' \<longrightarrow>
        parse_h5 s name True =
          Inl (ValueError (''The hdf5 argument '' @ [CHR 0x22] @ name @ [CHR 0x22] @ '' must contain at most one colon.'')))
   \<and> (py_count s CHR '':'' \<noteq> 1 \<longrightarrow>
        parse_h5 s name False =
          Inl (ValueError (''The hdf5 argument '' @ [CHR 0x22] @ name @ [CHR 0x22] @ '' must contain one colon.'')))"
  using count_one_parts [of s "CHR '':''"] py_split_count_one [of s "CHR '':''"]
  by (simp add: parse_h5_def py_count_def)

theorem parse_h5_cases_witness:
  "parse_h5 ''out.h5:res'' ''output'' True = Inr [''out.h5'', ''res'']
   \<and> parse_h5 ''out.h5'' ''output'' True = Inr [''out.h5'', ''/'']
   \<and> parse_h5 ''a:b:c'' ''output'' True =
        Inl (ValueError (''The hdf5 argument '' @ [CHR 0x22] @ ''output'' @ [CHR 0x22] @ '' must contain at most one colon.''))
   \<and> parse_h5 ''out.h5'' ''output'' False =
        Inl (ValueError (''The hdf5 argument '' @ [CHR 0x22] @ ''output'' @ [CHR 0x22] @ '' must contain one colon.''))"
  using parse_h5_cases [of "''out.h5:res''" "''output''" True]
    parse_h5_cases [of "''out.h5''" "''output''" True]
    parse_h5_cases [of "''a:b:c''" "''output''" True]
    parse_h5_cases [of "''out.h5''" "''output''" False]
  by (simp add: py_count_def)

subsection \<open>Opening with retries and closing\<close>

lemma open_loop_no_close: "Close \<notin> set (snd (open_loop opens rnd wait counter i))"
proof (induction opens rnd wait counter i rule: open_loop.induct)
  case (1 opens rnd wait counter i)
  show ?case
  proof (cases "opens i")
    case (Inr f)
    then show ?thesis by (subst open_loop.simps) simp
  next
    case failed: (Inl e)
    show ?thesis
    proof (cases "counter - 1 \<le> 0")
      case True
      with failed show ?thesis by (subst open_loop.simps) simp
    next
      case False
      show ?thesis
      proof (cases "time_sleep (np_random_uniform 0 wait (rnd i))")
        case (Inl e')
        with failed False show ?thesis by (subst open_loop.simps) simp
      next
        case (Inr d)
        from "1.IH" [OF failed False Inr]
        have "Close \<notin> set (snd (open_loop opens rnd wait (counter - 1) (Suc i)))" .
        with failed False Inr show ?thesis
          by (subst open_loop.simps) (simp add: case_prod_beta)
      qed
    qed
  qed
qed

lemma open_loop_all_fail:
  "\<forall>j. opens j = Inl (errs j) \<Longrightarrow> 0 \<le> wait \<Longrightarrow> \<forall>j. 0 \<le> rnd j \<Longrightarrow> 1 \<le> counter \<Longrightarrow>
     open_loop opens rnd wait counter i =
       (Inl (errs (i + nat counter - 1)),
        concat (map (\<lambda>j. [OpenAttempt, Sleep (wait * rnd j)]) [i ..< i + nat counter - 1])
          @ [OpenAttempt])"
proof (induction opens rnd wait counter i rule: open_loop.induct)
  case (1 opens rnd wait counter i)
  note fails = "1.prems"(1) and wait = "1.prems"(2) and rnd = "1.prems"(3)
  show ?case
  proof (cases "counter - 1 \<le> 0")
    case True
    with "1.prems" have "counter = 1" by simp
    then show ?thesis using fails by (subst open_loop.simps) simp
  next
    case False
    have d: "time_sleep (np_random_uniform 0 wait (rnd i)) = Inr (wait * rnd i)"
      using wait rnd by (simp add: time_sleep_def np_random_uniform_def not_less)
    have "opens i = Inl (errs i)" using fails by simp
    from "1.IH" [OF this False d fails wait rnd] False
    have ih: "open_loop opens rnd wait (counter - 1) (Suc i) =
       (Inl (errs (Suc i + nat (counter - 1) - 1)),
        concat (map (\<lambda>j. [OpenAttempt, Sleep (wait * rnd j)]) [Suc i ..< Suc i + nat (counter - 1) - 1])
          @ [OpenAttempt])"
      by simp
    have n: "nat counter = Suc (nat (counter - 1))" using False by simp
    have u: "[i ..< i + nat counter - 1] = i # [Suc i ..< Suc i + nat (counter - 1) - 1]"
      using False by (simp add: n upt_conv_Cons)
    show ?thesis
      using fails False d ih u n by (subst open_loop.simps) simp
  qed
qed

lemma sleeps_retries:
  "sleeps (concat (map (\<lambda>j. [OpenAttempt, Sleep (f j)]) js) @ tr) = map f js @ sleeps tr"
  by (induction js) simp_all

lemma attempts_retries:
  "count_list (concat (map (\<lambda>j. [OpenAttempt, Sleep (f j)]) js) @ tr) OpenAttempt =
     length js + count_list tr OpenAttempt"
  by (induction js) simp_all

text \<open>
  Claim C4. Let \<open>count \<ge> 1\<close>, let every call of \<^verbatim>\<open>h5.File\<close> fail (the \<open>j\<close>-th with
  \<open>errs j\<close>), and let the maximal wait be a duration (not negative). Then the acquisition
  makes exactly \<open>count\<close> attempts and raises the failure of the last one, it sleeps
  exactly \<open>count - 1\<close> times (not at all for \<open>count = 1\<close>), every sleep lasts between
  \<open>0\<close> and \<open>wait\<close>, and the \<^verbatim>\<open>with\<close> statement hands that failure to its caller
  without running its body.
\<close>

theorem safe_open_h5_exhausted:
  assumes "1 \<le> count" and "\<forall>j. opens j = Inl (errs j)" and "0 \<le> wait"
    and "\<forall>j. 0 \<le> rnd j \<and> rnd j < 1"
  shows "fst (safe_open_h5 opens rnd wait count) = Inl (errs (nat count - 1))
    \<and> count_list (snd (safe_open_h5 opens rnd wait count)) OpenAttempt = nat count
    \<and> length (sleeps (snd (safe_open_h5 opens rnd wait count))) = nat count - 1
    \<and> (\<forall>d \<in> set (sleeps (snd (safe_open_h5 opens rnd wait count))). 0 \<le> d \<and> d \<le> wait)
    \<and> with_safe_open_h5 opens rnd wait count body =
        (Inl (errs (nat count - 1)), None, snd (safe_open_h5 opens rnd wait count))"
proof -
  have rnd0: "\<forall>j. 0 \<le> rnd j" using assms(4) by simp
  have run: "safe_open_h5 opens rnd wait count =
       (Inl (errs (nat count - 1)),
        concat (map (\<lambda>j. [OpenAttempt, Sleep (wait * rnd j)]) [0 ..< nat count - 1])
          @ [OpenAttempt])"
    unfolding safe_open_h5_def
    using open_loop_all_fail [OF assms(2) assms(3) rnd0 assms(1), of 0] by simp
  have n: "Suc (nat count - 1) = nat count" using assms(1) by simp
  have bound: "0 \<le> wait * rnd j \<and> wait * rnd j \<le> wait" for j
  proof
    show "0 \<le> wait * rnd j" using assms(3,4) by simp
    have "wait * rnd j \<le> wait * 1"
      using assms(3,4) by (intro mult_left_mono) (simp_all add: less_imp_le)
    then show "wait * rnd j \<le> wait" by simp
  qed
  have sl: "sleeps (snd (safe_open_h5 opens rnd wait count)) =
      map (\<lambda>j. wait * rnd j) [0 ..< nat count - 1]"
    unfolding run snd_conv by (simp only: sleeps_retries) simp
  have at: "count_list (snd (safe_open_h5 opens rnd wait count)) OpenAttempt = nat count"
    unfolding run snd_conv using n by (simp only: attempts_retries) simp
  have res: "fst (safe_open_h5 opens rnd wait count) = Inl (errs (nat count - 1))"
    by (simp add: run)
  have w: "with_safe_open_h5 opens rnd wait count body =
        (Inl (errs (nat count - 1)), None, snd (safe_open_h5 opens rnd wait count))"
    by (simp add: with_safe_open_h5_def run)
  show ?thesis
    using bound by (simp add: sl at res w)
qed

theorem safe_open_h5_exhausted_witness:
  "(1::int) \<le> 3 \<and> (\<forall>j::nat. (\<lambda>_. Inl (IOError ''locked'') :: exn + nat) j = Inl ((\<lambda>_. IOError ''locked'') j))
    \<and> (0::real) \<le> 10 \<and> (\<forall>j::nat. (0::real) \<le> (\<lambda>_. 1/2) j \<and> (\<lambda>_. 1/2 :: real) j < 1)
    \<and> fst (safe_open_h5 (\<lambda>_. Inl (IOError ''locked'') :: exn + nat) (\<lambda>_. 1/2) 10 3) = Inl (IOError ''locked'')
    \<and> count_list (snd (safe_open_h5 (\<lambda>_. Inl (IOError ''locked'') :: exn + nat) (\<lambda>_. 1/2) 10 3)) OpenAttempt = 3
    \<and> length (sleeps (snd (safe_open_h5 (\<lambda>_. Inl (IOError ''locked'') :: exn + nat) (\<lambda>_. 1/2) 10 3))) = 2"
  using safe_open_h5_exhausted [of 3 "\<lambda>_. Inl (IOError ''locked'') :: exn + nat"
      "\<lambda>_. IOError ''locked''" 10 "\<lambda>_. 1/2" "\<lambda>f. (Inr (), f, [])"]
  by simp

text \<open>
  Claim C10. The retry does not look at the exception: for any exception \<open>e\<close> at all that
  every call of \<^verbatim>\<open>h5.File\<close> raises (a file that does not exist, an interrupt), each
  failure but the last is followed by a sleep and another attempt, and \<open>e\<close> itself is
  raised only after \<open>count\<close> attempts and \<open>count - 1\<close> sleeps.
\<close>

theorem safe_open_h5_retries_any_failure:
  assumes "1 \<le> count" and "0 \<le> wait" and "\<forall>j. 0 \<le> rnd j"
  shows "safe_open_h5 (\<lambda>_. Inl e) rnd wait count =
       (Inl e,
        concat (map (\<lambda>j. [OpenAttempt, Sleep (wait * rnd j)]) [0 ..< nat count - 1])
          @ [OpenAttempt])"
  unfolding safe_open_h5_def
  using open_loop_all_fail [of "\<lambda>_. Inl e" "\<lambda>_. e" wait rnd count 0] assms by simp

theorem safe_open_h5_retries_any_failure_witness:
  "(1::int) \<le> 3 \<and> (0::real) \<le> 10 \<and> (\<forall>j::nat. (0::real) \<le> (\<lambda>_. 1/2) j)
   \<and> safe_open_h5 (\<lambda>_. Inl KeyboardInterrupt :: exn + nat) (\<lambda>_. 1/2) 10 3 =
       (Inl KeyboardInterrupt, [OpenAttempt, Sleep 5, OpenAttempt, Sleep 5, OpenAttempt])"
  using safe_open_h5_retries_any_failure [of 3 10 "\<lambda>_. 1/2" KeyboardInterrupt]
  by (simp add: upt_conv_Cons)

text \<open>
  Claim C5. After a successful acquisition the file is closed exactly once, after the body,
  both when the body completes and when it raises; the body's outcome is the outcome of
  the statement.
\<close>

theorem with_safe_open_h5_closes_once:
  assumes "safe_open_h5 opens rnd wait count = (Inr f, tr)"
  shows "(\<forall>e f' out. body f = (Inl e, f', out) \<longrightarrow>
            with_safe_open_h5 opens rnd wait count body = (Inl e, Some f', tr @ map Log out @ [Close]))
    \<and> (\<forall>r f' out. body f = (Inr r, f', out) \<longrightarrow>
            with_safe_open_h5 opens rnd wait count body = (Inr r, Some f', tr @ map Log out @ [Close]))
    \<and> count_list (snd (snd (with_safe_open_h5 opens rnd wait count body))) Close = 1"
proof -
  have "Close \<notin> set tr"
    using open_loop_no_close [of opens rnd wait count 0] assms by (simp add: safe_open_h5_def)
  then have "count_list tr Close = 0" by (simp add: count_list_0_iff)
  moreover have "count_list (map Log out) Close = 0" for out
    by (induction out) simp_all
  ultimately show ?thesis
    using assms by (auto simp: with_safe_open_h5_def split: prod.splits)
qed


theorem with_safe_open_h5_closes_once_witness:
  "safe_open_h5 (\<lambda>i. if i = 0 then Inl (IOError ''busy'') else Inr (7::nat)) (\<lambda>_. 1/2) 10 10 =
      (Inr 7, [OpenAttempt, Sleep 5, OpenAttempt])
   \<and> with_safe_open_h5 (\<lambda>i. if i = 0 then Inl (IOError ''busy'') else Inr (7::nat)) (\<lambda>_. 1/2) 10 10
        (\<lambda>f. (Inl (KeyError ''a'') :: exn + unit, f, [])) =
      (Inl (KeyError ''a''), Some 7, [OpenAttempt, Sleep 5, OpenAttempt, Close])
   \<and> with_safe_open_h5 (\<lambda>i. if i = 0 then Inl (IOError ''busy'') else Inr (7::nat)) (\<lambda>_. 1/2) 10 10
        (\<lambda>f. (Inr (1::nat) :: exn + nat, f, [''done''])) =
      (Inr 1, Some 7, [OpenAttempt, Sleep 5, OpenAttempt, Log ''done'', Close])"
proof -
  have a: "safe_open_h5 (\<lambda>i. if i = 0 then Inl (IOError ''busy'') else Inr (7::nat)) (\<lambda>_. 1/2) 10 10 =
      (Inr 7, [OpenAttempt, Sleep 5, OpenAttempt])"
    unfolding safe_open_h5_def
    by (subst open_loop.simps, simp add: time_sleep_def np_random_uniform_def,
        subst open_loop.simps, simp)
  show ?thesis
    using with_safe_open_h5_closes_once [OF a, of "\<lambda>f. (Inl (KeyError ''a'') :: exn + unit, f, [])"]
      with_safe_open_h5_closes_once [OF a, of "\<lambda>f. (Inr (1::nat) :: exn + nat, f, [''done''])"]
    by (simp add: a)
qed

subsection \<open>The output guard\<close>

text \<open>
  Claim C1 says that \<^verbatim>\<open>check_output\<close> answers \<^verbatim>\<open>True\<close> for an existing, non-empty group
  when \<^verbatim>\<open>overwrite\<close> is false. The code does not: the file exists and opens at once, its
  group \<^verbatim>\<open>res\<close> holds a dataset, \<^verbatim>\<open>overwrite\<close> is false, and the call raises
  \<^verbatim>\<open>TypeError\<close> from \<^verbatim>\<open>len(f[grp_name] > 0)\<close> (the file is closed on the way out).
\<close>

theorem check_output_existing_group_raises:
  "check_output ev_example True (\<lambda>i. Inr file_res) (\<lambda>i. 0) ''out.h5'' ''res'' False =
     (Inl (TypeError ''object of type bool has no len()''), [OpenAttempt, Close])"
  by code_simp

text \<open>More generally, no call of \<^verbatim>\<open>check_output\<close> answers \<^verbatim>\<open>True\<close>.\<close>

lemma check_output_never_skips:
  "fst (check_output ev isfile opens rnd fn_h5 grp_name overwrite) \<noteq> Inr True"
  by (auto simp: check_output_def with_safe_open_h5_def check_output_body_def py_len_bool_def
      split: prod.splits sum.splits option.splits if_splits)

subsection \<open>Replacing the contents of a group\<close>

text \<open>
  Claim C2 says that a write to an existing group deletes the children of that group and
  nothing else. The code deletes, for every child name of the group, the entry of that name
  in the root group. In a file whose root holds the group \<^verbatim>\<open>res\<close> (with child \<^verbatim>\<open>a\<close>) and a
  dataset \<^verbatim>\<open>a\<close>, \<^verbatim>\<open>write_script_output\<close> of \<^verbatim>\<open>{'c': 1}\<close> to \<^verbatim>\<open>res\<close> succeeds, removes the
  dataset of the root and leaves \<^verbatim>\<open>res\<close> with the children \<^verbatim>\<open>a\<close> and \<^verbatim>\<open>c\<close>. Without a
  root entry \<^verbatim>\<open>a\<close> the same write raises \<^verbatim>\<open>KeyError\<close> and the child stays. 
  \<^verbatim>\<open>write_part_output\<close> to the existing group \<^verbatim>\<open>res\<close> looks up the literal name
  \<^verbatim>\<open>'grp_name'\<close> and raises \<^verbatim>\<open>KeyError\<close>.
\<close>

theorem write_output_deletes_in_root:
  "(case write_script_output dump_hdf5_low ev_example (\<lambda>i. Inr file_res_and_a) (\<lambda>i. 0)
           ''out.h5'' ''res'' [(''c'', PyInt 1)] [] of
      (r, f', tr) \<Rightarrow> (r, map_option (\<lambda>f. keys_at f ''/'') f', map_option (\<lambda>f. keys_at f ''res'') f'))
     = (Inr (), Some (Inr [''res'']), Some (Inr [''a'', ''c'']))
   \<and> (case write_script_output dump_hdf5_low ev_example (\<lambda>i. Inr file_res) (\<lambda>i. 0)
           ''out.h5'' ''res'' [(''c'', PyInt 1)] [] of
      (r, f', tr) \<Rightarrow> (r, map_option (\<lambda>f. keys_at f ''res'') f'))
     = (Inl (KeyError ''a''), Some (Inr [''a'']))
   \<and> (case write_part_output dump_hdf5_low ev_example (\<lambda>i. Inr file_res) (\<lambda>i. 0)
           ''out.h5'' ''res'' part_example [''charges''] [(''debug'', Some (AttrBool False))] of
      (r, f', tr) \<Rightarrow> (r, map_option (\<lambda>f. keys_at f ''res'') f'))
     = (Inl (KeyError ''grp_name''), Some (Inr [''a'']))"
  by code_simp

text \<open>
  Claim C3 says that after a successful write of \<^verbatim>\<open>{'c': 1}\<close> to a group that held a
  successful write of \<^verbatim>\<open>{'a': 1, 'b': 2}\<close> the children of the group are exactly \<^verbatim>\<open>c\<close>.
  The code keeps the stale children: in a file with root datasets \<^verbatim>\<open>a\<close> and \<^verbatim>\<open>b\<close>, both
  writes to \<^verbatim>\<open>res\<close> succeed and the group ends with the children \<^verbatim>\<open>a\<close>, \<^verbatim>\<open>b\<close> and \<^verbatim>\<open>c\<close>.
\<close>

theorem write_twice_keeps_stale_children:
  "(case write_script_twice file_a_b ''res'' [(''a'', PyInt 1), (''b'', PyInt 2)] [(''c'', PyInt 1)] of
      (r1, r2, f') \<Rightarrow> (r1, r2, map_option (\<lambda>f. keys_at f ''res'') f'))
     = (Inr (), Inr (), Some (Inr [''a'', ''b'', ''c'']))"
  by code_simp

subsection \<open>Stamping the arguments\<close>

lemma h5_attrs_set_refused:
  "\<not> attr_storable val \<Longrightarrow>
     h5_attrs_set h g key val = (Some (TypeError ''Object dtype has no native HDF5 equivalent''), h)"
  by (simp add: h5_attrs_set_def)

lemma h5_attrs_set_done:
  "attr_storable val \<Longrightarrow> fst (h5_attrs_set h g key val) = None"
  by (simp add: h5_attrs_set_def split: option.splits h5obj.splits)

lemma h5_attrs_set_lookup:
  "attr_storable val \<Longrightarrow> objs h g \<noteq> None \<Longrightarrow>
     h5_attrs (snd (h5_attrs_set h g key val)) g = (h5_attrs h g)(key \<mapsto> val)"
  by (auto simp: h5_attrs_def h5_attrs_set_def update_conv' split: option.splits h5obj.splits)

lemma h5_attrs_set_present:
  "objs h g \<noteq> None \<Longrightarrow> objs (snd (h5_attrs_set h g key val)) g \<noteq> None"
  by (auto simp: h5_attrs_set_def split: option.splits h5obj.splits)

lemma h5_attrs_set_other:
  "objs h g \<noteq> None \<Longrightarrow> key \<noteq> n \<Longrightarrow>
     h5_attrs (snd (h5_attrs_set h g key val)) g n = h5_attrs h g n"
  by (cases "attr_storable val")
     (simp_all add: h5_attrs_set_lookup h5_attrs_set_refused del: not_None_eq)

lemma store_args_loop_present:
  "objs h g \<noteq> None \<Longrightarrow> objs (snd (store_args_loop args h g)) g \<noteq> None"
proof (induction args arbitrary: h)
  case Nil
  then show ?case by simp
next
  case (Cons a args)
  obtain k v where a: "a = (k, v)" by (cases a)
  show ?case
  proof (cases v)
    case None
    with Cons a show ?thesis by simp
  next
    case (Some x)
    let ?r = "h5_attrs_set h g (''arg_'' @ k) x"
    have p: "objs (snd ?r) g \<noteq> None" using Cons.prems by (rule h5_attrs_set_present)
    show ?thesis
    proof (cases "fst ?r")
      case None
      then have "store_args_loop (a # args) h g = store_args_loop args (snd ?r) g"
        using a Some by (simp add: case_prod_beta)
      with Cons.IH [OF p] show ?thesis by simp
    next
      case (Some e)
      then have "store_args_loop (a # args) h g = (Some e, snd ?r)"
        using a \<open>v = Some x\<close> by (simp add: case_prod_beta)
      with p show ?thesis by simp
    qed
  qed
qed

lemma store_args_loop_other:
  "objs h g \<noteq> None \<Longrightarrow> \<forall>key val. (key, Some val) \<in> set args \<longrightarrow> ''arg_'' @ key \<noteq> n \<Longrightarrow>
     h5_attrs (snd (store_args_loop args h g)) g n = h5_attrs h g n"
proof (induction args arbitrary: h)
  case Nil
  then show ?case by simp
next
  case (Cons a args)
  obtain k v where a: "a = (k, v)" by (cases a)
  have rest: "\<forall>key val. (key, Some val) \<in> set args \<longrightarrow> ''arg_'' @ key \<noteq> n"
    using Cons.prems(2) by simp
  show ?case
  proof (cases v)
    case None
    with Cons.IH [OF Cons.prems(1) rest] a show ?thesis by simp
  next
    case (Some x)
    let ?r = "h5_attrs_set h g (''arg_'' @ k) x"
    have p: "objs (snd ?r) g \<noteq> None" using Cons.prems(1) by (rule h5_attrs_set_present)
    have "''arg_'' @ k \<noteq> n" using Cons.prems(2) a Some by simp
    then have same: "h5_attrs (snd ?r) g n = h5_attrs h g n"
      using Cons.prems(1) by (intro h5_attrs_set_other)
    show ?thesis
    proof (cases "fst ?r")
      case None
      then have "store_args_loop (a # args) h g = store_args_loop args (snd ?r) g"
        using a Some by (simp add: case_prod_beta)
      with Cons.IH [OF p rest] same show ?thesis by simp
    next
      case (Some e)
      then have "store_args_loop (a # args) h g = (Some e, snd ?r)"
        using a \<open>v = Some x\<close> by (simp add: case_prod_beta)
      with same show ?thesis by simp
    qed
  qed
qed

lemma store_args_loop_raises:
  "(fst (store_args_loop args h g) = None) =
     (\<forall>key val. (key, Some val) \<in> set args \<longrightarrow> attr_storable val)"
proof (induction args arbitrary: h)
  case Nil
  then show ?case by simp
next
  case (Cons a args)
  obtain k v where a: "a = (k, v)" by (cases a)
  show ?case
  proof (cases v)
    case None
    with Cons.IH [of h] a show ?thesis by auto
  next
    case (Some x)
    show ?thesis
    proof (cases "attr_storable x")
      case True
      then have "fst (h5_attrs_set h g (''arg_'' @ k) x) = None" by (rule h5_attrs_set_done)
      then have "store_args_loop (a # args) h g =
          store_args_loop args (snd (h5_attrs_set h g (''arg_'' @ k) x)) g"
        using a Some by (simp add: case_prod_beta)
      with Cons.IH [of "snd (h5_attrs_set h g (''arg_'' @ k) x)"] a Some True
      show ?thesis by auto
    next
      case False
      then have "fst (store_args_loop (a # args) h g) \<noteq> None"
        using a Some by (simp add: h5_attrs_set_refused)
      with False a Some show ?thesis by auto
    qed
  qed
qed

lemma store_args_loop_set:
  "objs h g \<noteq> None \<Longrightarrow> distinct (map fst args) \<Longrightarrow>
   \<forall>key val. (key, Some val) \<in> set args \<longrightarrow> attr_storable val \<Longrightarrow>
   (key, Some val) \<in> set args \<Longrightarrow>
     h5_attrs (snd (store_args_loop args h g)) g (''arg_'' @ key) = Some val"
proof (induction args arbitrary: h)
  case Nil
  then show ?case by simp
next
  case (Cons a args)
  obtain k v where a: "a = (k, v)" by (cases a)
  have dist: "distinct (map fst args)" using Cons.prems(2) by simp
  have ok: "\<forall>key val. (key, Some val) \<in> set args \<longrightarrow> attr_storable val"
    using Cons.prems(3) by simp
  show ?case
  proof (cases v)
    case None
    with Cons.prems(4) a have "(key, Some val) \<in> set args" by auto
    from Cons.IH [OF Cons.prems(1) dist ok this] a None show ?thesis by simp
  next
    case (Some x)
    let ?r = "h5_attrs_set h g (''arg_'' @ k) x"
    have st: "attr_storable x" using Cons.prems(3) a Some by simp
    have p: "objs (snd ?r) g \<noteq> None" using Cons.prems(1) by (rule h5_attrs_set_present)
    have "fst ?r = None" using st by (rule h5_attrs_set_done)
    then have run: "store_args_loop (a # args) h g = store_args_loop args (snd ?r) g"
      using a Some by (simp add: case_prod_beta)
    show ?thesis
    proof (cases "(key, Some val) \<in> set args")
      case True
      from Cons.IH [OF p dist ok True] run show ?thesis by simp
    next
      case False
      with Cons.prems(4) a Some have here: "k = key" "x = val" by auto
      have "\<And>key' val'. (key', Some val') \<in> set args \<Longrightarrow> key' \<noteq> key"
        using Cons.prems(2) a here by (auto simp: image_iff)
      then have rest: "\<forall>key' val'. (key', Some val') \<in> set args \<longrightarrow> ''arg_'' @ key' \<noteq> ''arg_'' @ key"
        by simp
      have "h5_attrs (snd (store_args_loop args (snd ?r) g)) g (''arg_'' @ key) =
          h5_attrs (snd ?r) g (''arg_'' @ key)"
        using p rest by (rule store_args_loop_other)
      also have "\<dots> = Some val"
        using here st Cons.prems(1) by (simp add: h5_attrs_set_lookup del: not_None_eq)
      finally show ?thesis using run by simp
    qed
  qed
qed


text \<open>
  Claim C6, amended. On a group, for an argument record (a dictionary: its keys are
  distinct), \<^verbatim>\<open>store_args\<close> always leaves the attribute \<^verbatim>\<open>cmdline\<close> set to the argument
  vector joined by spaces, \<^verbatim>\<open>pwd\<close> to the working directory and \<^verbatim>\<open>datetime\<close> to the ISO
  text of the clock, and for every entry that is \<^verbatim>\<open>None\<close> the attribute \<^verbatim>\<open>arg_<name>\<close> is
  what it was before the call: it is not created. The call returns without an exception
  exactly when every value that is not \<^verbatim>\<open>None\<close> has a native HDF5 type, and then
  \<^verbatim>\<open>arg_<name>\<close> is the value of every such entry.
\<close>

theorem store_args_attrs:
  assumes "objs h grp = Some (Group ls as)" and "distinct (map fst args)"
  shows "h5_attrs (snd (store_args ev args h grp)) grp ''cmdline'' = Some (AttrStr (py_join '' '' (argv ev)))
    \<and> h5_attrs (snd (store_args ev args h grp)) grp ''pwd'' = Some (AttrStr (cwd ev))
    \<and> h5_attrs (snd (store_args ev args h grp)) grp ''datetime'' = Some (AttrStr (now_isoformat ev))
    \<and> (\<forall>key. (key, None) \<in> set args \<longrightarrow>
          h5_attrs (snd (store_args ev args h grp)) grp (''arg_'' @ key) = h5_attrs h grp (''arg_'' @ key))
    \<and> ((fst (store_args ev args h grp) = None) =
          (\<forall>key val. (key, Some val) \<in> set args \<longrightarrow> attr_storable val))
    \<and> ((\<forall>key val. (key, Some val) \<in> set args \<longrightarrow> attr_storable val) \<longrightarrow>
          (\<forall>key val. (key, Some val) \<in> set args \<longrightarrow>
             h5_attrs (snd (store_args ev args h grp)) grp (''arg_'' @ key) = Some val))"
proof -
  let ?r1 = "h5_attrs_set h grp ''cmdline'' (AttrStr (py_join '' '' (argv ev)))"
  let ?r2 = "h5_attrs_set (snd ?r1) grp ''pwd'' (AttrStr (cwd ev))"
  let ?r3 = "h5_attrs_set (snd ?r2) grp ''datetime'' (AttrStr (now_isoformat ev))"
  let ?h3 = "snd ?r3"
  have p0: "objs h grp \<noteq> None" using assms(1) by simp
  have p1: "objs (snd ?r1) grp \<noteq> None" using p0 by (rule h5_attrs_set_present)
  have p2: "objs (snd ?r2) grp \<noteq> None" using p1 by (rule h5_attrs_set_present)
  have p3: "objs ?h3 grp \<noteq> None" using p2 by (rule h5_attrs_set_present)
  have d1: "fst ?r1 = None" by (rule h5_attrs_set_done) simp
  have d2: "fst ?r2 = None" by (rule h5_attrs_set_done) simp
  have d3: "fst ?r3 = None" by (rule h5_attrs_set_done) simp
  have run: "store_args ev args h grp = store_args_loop args ?h3 grp"
    unfolding store_args_def using d1 d2 d3 by (simp add: case_prod_beta)
  have a3: "h5_attrs ?h3 grp =
      (h5_attrs h grp)(''cmdline'' \<mapsto> AttrStr (py_join '' '' (argv ev)),
         ''pwd'' \<mapsto> AttrStr (cwd ev), ''datetime'' \<mapsto> AttrStr (now_isoformat ev))"
    by (simp add: h5_attrs_set_lookup [OF _ p0] h5_attrs_set_lookup [OF _ p1]
        h5_attrs_set_lookup [OF _ p2])
  have fixed: "h5_attrs (snd (store_args ev args h grp)) grp n = h5_attrs ?h3 grp n"
    if "n = ''cmdline'' \<or> n = ''pwd'' \<or> n = ''datetime''" for n
    unfolding run using that by (intro store_args_loop_other p3) auto
  have absent: "h5_attrs (snd (store_args ev args h grp)) grp (''arg_'' @ key) = h5_attrs h grp (''arg_'' @ key)"
    if "(key, None) \<in> set args" for key
  proof -
    have "\<forall>key' val. (key', Some val) \<in> set args \<longrightarrow> ''arg_'' @ key' \<noteq> ''arg_'' @ key"
    proof (intro allI impI)
      fix key' val assume "(key', Some val) \<in> set args"
      with that assms(2) have "key' \<noteq> key"
        using eq_key_imp_eq_value [of args key None "Some val"] by auto
      then show "''arg_'' @ key' \<noteq> ''arg_'' @ key" by simp
    qed
    then have "h5_attrs (snd (store_args ev args h grp)) grp (''arg_'' @ key) = h5_attrs ?h3 grp (''arg_'' @ key)"
      unfolding run by (intro store_args_loop_other p3)
    then show ?thesis by (simp add: a3)
  qed
  have raises: "(fst (store_args ev args h grp) = None) =
      (\<forall>key val. (key, Some val) \<in> set args \<longrightarrow> attr_storable val)"
    unfolding run by (rule store_args_loop_raises)
  have given: "h5_attrs (snd (store_args ev args h grp)) grp (''arg_'' @ key) = Some val"
    if "\<forall>key val. (key, Some val) \<in> set args \<longrightarrow> attr_storable val" "(key, Some val) \<in> set args"
    for key val
    unfolding run using p3 assms(2) that by (rule store_args_loop_set)
  show ?thesis
  proof (intro conjI allI impI)
    show "h5_attrs (snd (store_args ev args h grp)) grp ''cmdline'' = Some (AttrStr (py_join '' '' (argv ev)))"
      using fixed [of "''cmdline''"] by (simp add: a3)
    show "h5_attrs (snd (store_args ev args h grp)) grp ''pwd'' = Some (AttrStr (cwd ev))"
      using fixed [of "''pwd''"] by (simp add: a3)
    show "h5_attrs (snd (store_args ev args h grp)) grp ''datetime'' = Some (AttrStr (now_isoformat ev))"
      using fixed [of "''datetime''"] by (simp add: a3)
    show "(fst (store_args ev args h grp) = None) =
      (\<forall>key val. (key, Some val) \<in> set args \<longrightarrow> attr_storable val)" by (rule raises)
  next
    fix key assume "(key, None) \<in> set args"
    then show "h5_attrs (snd (store_args ev args h grp)) grp (''arg_'' @ key) = h5_attrs h grp (''arg_'' @ key)"
      by (rule absent)
  next
    fix key val
    assume "\<forall>key val. (key, Some val) \<in> set args \<longrightarrow> attr_storable val" "(key, Some val) \<in> set args"
    then show "h5_attrs (snd (store_args ev args h grp)) grp (''arg_'' @ key) = Some val"
      by (rule given)
  qed
qed

theorem store_args_attrs_witness:
  "objs file_empty h5_root = Some (Group [] [])
   \<and> distinct (map fst [(''alpha'', Some (AttrFloat (1/2))), (''beta'', None), (''debug'', Some (AttrBool False))])
   \<and> attr_storable (AttrFloat (1/2)) \<and> attr_storable (AttrBool False)
   \<and> fst (store_args ev_example [(''alpha'', Some (AttrFloat (1/2))), (''beta'', None), (''debug'', Some (AttrBool False))] file_empty h5_root) = None
   \<and> h5_attrs (snd (store_args ev_example [(''alpha'', Some (AttrFloat (1/2))), (''beta'', None), (''debug'', Some (AttrBool False))] file_empty h5_root)) h5_root ''cmdline''
        = Some (AttrStr ''horton-wpart.py out.h5'')
   \<and> h5_attrs (snd (store_args ev_example [(''alpha'', Some (AttrFloat (1/2))), (''beta'', None), (''debug'', Some (AttrBool False))] file_empty h5_root)) h5_root ''pwd''
        = Some (AttrStr ''/home/user'')
   \<and> h5_attrs (snd (store_args ev_example [(''alpha'', Some (AttrFloat (1/2))), (''beta'', None), (''debug'', Some (AttrBool False))] file_empty h5_root)) h5_root ''datetime''
        = Some (AttrStr ''2013-05-01T12:00:00'')
   \<and> h5_attrs (snd (store_args ev_example [(''alpha'', Some (AttrFloat (1/2))), (''beta'', None), (''debug'', Some (AttrBool False))] file_empty h5_root)) h5_root ''arg_alpha''
        = Some (AttrFloat (1/2))
   \<and> h5_attrs (snd (store_args ev_example [(''alpha'', Some (AttrFloat (1/2))), (''beta'', None), (''debug'', Some (AttrBool False))] file_empty h5_root)) h5_root ''arg_beta''
        = None"
proof -
  have g: "objs file_empty h5_root = Some (Group [] [])"
    by (simp add: file_empty_def h5_root_def)
  have d: "distinct (map fst [(''alpha'', Some (AttrFloat (1/2))), (''beta'', None), (''debug'', Some (AttrBool False))])"
    by simp
  have b: "h5_attrs file_empty h5_root ''arg_beta'' = None"
    by (simp add: h5_attrs_def file_empty_def h5_root_def)
  show ?thesis
    using store_args_attrs [OF g d, of ev_example] g b
    by (simp add: ev_example_def)
qed

text \<open>
  Claim C6 as it is stated, for every argument record, fails for a value with no native
  HDF5 type: with \<^verbatim>\<open>n = 2**64\<close> and \<^verbatim>\<open>m = 1\<close> the assignment of \<^verbatim>\<open>arg_n\<close> raises
  \<^verbatim>\<open>TypeError\<close>, and neither \<^verbatim>\<open>arg_n\<close> nor \<^verbatim>\<open>arg_m\<close> is set.
\<close>

theorem store_args_huge_integer:
  "fst (store_args ev_example [(''n'', Some (AttrInt 18446744073709551616)), (''m'', Some (AttrInt 1))]
          file_empty h5_root) = Some (TypeError ''Object dtype has no native HDF5 equivalent'')
   \<and> h5_attrs (snd (store_args ev_example [(''n'', Some (AttrInt 18446744073709551616)), (''m'', Some (AttrInt 1))]
          file_empty h5_root)) h5_root ''arg_n'' = None
   \<and> h5_attrs (snd (store_args ev_example [(''n'', Some (AttrInt 18446744073709551616)), (''m'', Some (AttrInt 1))]
          file_empty h5_root)) h5_root ''arg_m'' = None"
  by code_simp

subsection \<open>Writing only adds to a file\<close>
































subsection \<open>Failure of a dump\<close>
















subsection \<open>The debug dump\<close>





















end
